theory Spec2Isabelle
  imports Main "HOL-Library.Multiset"
begin

section \<open>Values of the protocol that the engine builds and inspects\<close>

text \<open>
  A thrown JavaScript value, as far as \<open>errorMessage\<close> can tell values apart: a string,
  an object whose \<open>message\<close> is a string, or anything else.
\<close>

datatype js_error = ErrString string | ErrMessage string | ErrOther

fun errorMessage :: "js_error \<Rightarrow> string" where
  "errorMessage (ErrString s) = (if s = [] then ''Unknown problem'' else s)"
| "errorMessage (ErrMessage m) = m"
| "errorMessage ErrOther = ''Unknown problem''"

datatype arcjet_mode = LIVE | DRY_RUN

datatype conclusion = ALLOW | DENY | CHALLENGE | ERROR

datatype rule_state = NOT_RUN | RUN | CACHED

datatype rule_type = RATE_LIMIT | BOT | EMAIL | SENSITIVE_INFO | SHIELD

fun type_name :: "rule_type \<Rightarrow> string" where
  "type_name RATE_LIMIT = ''RATE_LIMIT''"
| "type_name BOT = ''BOT''"
| "type_name EMAIL = ''EMAIL''"
| "type_name SENSITIVE_INFO = ''SENSITIVE_INFO''"
| "type_name SHIELD = ''SHIELD''"

text \<open>An entity found by the sensitive-information analyzer, with its type already a string.\<close>

record identified_entity =
  ie_start :: nat
  ie_end :: nat
  ie_identifiedType :: string

text \<open>
  The reasons the engine constructs itself: \<open>new ArcjetReason()\<close>, the bot reason
  (allowed, then denied), the email reason (its email types), the sensitive-info reason
  (denied, then allowed) and the error reason, which carries the value it was built from.
  \<open>RemoteReason\<close> stands for the kinds only the remote service produces (rate limit,
  shield).
\<close>

datatype reason =
    GenericReason
  | BotReason "string list" "string list"
  | EmailReason "string list"
  | SensitiveInfoReason "identified_entity list" "identified_entity list"
  | ErrorReason js_error
  | RemoteReason string

record rule_result =
  rr_ttl :: int
  rr_state :: rule_state
  rr_conclusion :: conclusion
  rr_reason :: reason

definition rr_isDenied :: "rule_result \<Rightarrow> bool" where
  "rr_isDenied r = (rr_conclusion r = DENY)"

text \<open>
  A decision: the class (\<open>ArcjetDenyDecision\<close>, \<open>ArcjetErrorDecision\<close>, ...) is the
  conclusion tag. The identifiers that the protocol package generates for decisions and
  rule results play no part in the engine's control flow and are left out.
\<close>

record decision =
  d_conclusion :: conclusion
  d_ttl :: int
  d_reason :: reason
  d_results :: "rule_result list"

definition d_isDenied :: "decision \<Rightarrow> bool" where
  "d_isDenied d = (d_conclusion d = DENY)"

definition ArcjetDenyDecision :: "int \<Rightarrow> reason \<Rightarrow> rule_result list \<Rightarrow> decision" where
  "ArcjetDenyDecision t r rs =
     \<lparr>d_conclusion = DENY, d_ttl = t, d_reason = r, d_results = rs\<rparr>"

definition ArcjetErrorDecision :: "int \<Rightarrow> reason \<Rightarrow> rule_result list \<Rightarrow> decision" where
  "ArcjetErrorDecision t r rs =
     \<lparr>d_conclusion = ERROR, d_ttl = t, d_reason = r, d_results = rs\<rparr>"

section \<open>Requests, request details and contexts\<close>

datatype js_value = JString string | JNumber string | JBoolean bool | JOther

text \<open>
  \<open>JNumber\<close> carries the text that a template literal renders for the number.
\<close>

fun toString :: "js_value \<Rightarrow> string" where
  "toString (JString s) = s"
| "toString (JNumber n) = n"
| "toString (JBoolean b) = (if b then ''true'' else ''false'')"
| "toString JOther = ''<unsupported value>''"

definition knownFields :: "string list" where
  "knownFields = [''ip'', ''method'', ''protocol'', ''host'', ''path'', ''headers'',
     ''body'', ''email'', ''cookies'', ''query'']"

definition isUnknownRequestProperty :: "string \<Rightarrow> bool" where
  "isUnknownRequestProperty k = (k \<notin> set knownFields)"

text \<open>
  A JavaScript object with string keys, as the list of its entries: a later assignment to
  a key that is present replaces the value in place.
\<close>

fun obj_set :: "string \<Rightarrow> 'v \<Rightarrow> (string \<times> 'v) list \<Rightarrow> (string \<times> 'v) list" where
  "obj_set k v [] = [(k, v)]"
| "obj_set k v ((k', v') # kvs) =
     (if k = k' then (k, v) # kvs else (k', v') # obj_set k v kvs)"

text \<open>
  A request as the adapter passes it: the fields that \<open>protect\<close> reads by name, and
  \<open>rq_others\<close>, the entries under every other key in the order of \<open>Object.entries\<close>
  (a \<open>body\<close> entry is there: it is a known field that is not copied). \<open>rq_headers\<close> is
  the sequence that \<open>new ArcjetHeaders(request.headers).entries()\<close> yields; the headers
  class itself is another package.
\<close>

record request =
  rq_ip :: "string option"
  rq_method :: "string option"
  rq_protocol :: "string option"
  rq_host :: "string option"
  rq_path :: "string option"
  rq_headers :: "(string \<times> string) list"
  rq_cookies :: "string option"
  rq_query :: "string option"
  rq_email :: "js_value option"
  rq_others :: "(string \<times> js_value) list"

definition empty_request :: request where
  "empty_request = \<lparr>rq_ip = None, rq_method = None, rq_protocol = None, rq_host = None,
     rq_path = None, rq_headers = [], rq_cookies = None, rq_query = None, rq_email = None,
     rq_others = []\<rparr>"

definition extraProps :: "request \<Rightarrow> (string \<times> string) list" where
  "extraProps rq =
     fold (\<lambda>(k, v) extra. if isUnknownRequestProperty k then obj_set k (toString v) extra
                            else extra)
       (rq_others rq) []"

record details =
  rd_ip :: "string option"
  rd_method :: "string option"
  rd_protocol :: "string option"
  rd_host :: "string option"
  rd_path :: "string option"
  rd_headers :: "(string \<times> string) list"
  rd_cookies :: "string option"
  rd_query :: "string option"
  rd_extra :: "(string \<times> string) list"
  rd_email :: "string option"

definition request_details :: "request \<Rightarrow> details" where
  "request_details rq =
     \<lparr>rd_ip = rq_ip rq, rd_method = rq_method rq, rd_protocol = rq_protocol rq,
      rd_host = rq_host rq, rd_path = rq_path rq, rd_headers = rq_headers rq,
      rd_cookies = rq_cookies rq, rd_query = rq_query rq, rd_extra = extraProps rq,
      rd_email = (case rq_email rq of Some (JString e) \<Rightarrow> Some e | _ \<Rightarrow> None)\<rparr>"

definition toAnalyzeRequest :: "details \<Rightarrow> details" where
  "toAnalyzeRequest rd =
     rd\<lparr>rd_headers := fold (\<lambda>(k, v) headers. obj_set k v headers) (rd_headers rd) []\<rparr>"

text \<open>
  The context handed to the analyzer and to the rules. Of the adapter's context only
  \<open>getBody\<close> is modelled, as the outcome of awaiting it: a rejection, no body, or the text.
  The logger travels in the context too; its calls are recorded in the trace below.
\<close>

record adapter_context =
  ac_getBody :: "js_error + string option"

record base_context =
  c_key :: string
  c_characteristics :: "string list"
  c_getBody :: "js_error + string option"

record arcjet_context = base_context +
  c_fingerprint :: string
  c_runtime :: string

section \<open>Rules\<close>

datatype rule_fields =
    TokenBucketFields "string option" int int int
  | FixedWindowFields "string option" int int
  | SlidingWindowFields "string option" int int
  | BotFields "string list" "string list"
  | EmailFields "string list" bool bool
  | SensitiveInfoFields "string list" "string list"
  | ShieldFields

text \<open>
  A rule object. \<open>r_validate\<close> and \<open>r_protect\<close> are the optional methods: \<open>validate\<close>
  either throws (\<open>Some\<close> of the thrown value) or returns; \<open>protect\<close> resolves to a rule
  result (\<open>Inr\<close>) or rejects (\<open>Inl\<close>).
\<close>

record rule =
  r_type :: rule_type
  r_priority :: int
  r_mode :: arcjet_mode
  r_characteristics :: "string list option"
  r_fields :: rule_fields
  r_validate :: "(arcjet_context \<Rightarrow> details \<Rightarrow> js_error option) option"
  r_protect :: "(arcjet_context \<Rightarrow> details \<Rightarrow> js_error + rule_result) option"

definition isLocalRule :: "rule \<Rightarrow> bool" where
  "isLocalRule r = (r_validate r \<noteq> None \<and> r_protect r \<noteq> None)"

definition isRateLimitRule :: "rule \<Rightarrow> bool" where
  "isRateLimitRule r = (r_type r = RATE_LIMIT)"

definition Priority_SensitiveInfo :: int where "Priority_SensitiveInfo = 1"
definition Priority_Shield :: int where "Priority_Shield = 2"
definition Priority_RateLimit :: int where "Priority_RateLimit = 3"
definition Priority_BotDetection :: int where "Priority_BotDetection = 4"
definition Priority_EmailValidation :: int where "Priority_EmailValidation = 5"

section \<open>Rule constructors\<close>

text \<open>
  The analyzer is another package: its three detection functions are parameters, each
  resolving to a result or rejecting. \<open>duration.parse\<close> is a parameter as well.
\<close>

datatype bot_config = AllowedBotConfig "string list" bool | DeniedBotConfig "string list" bool

record bot_result =
  br_allowed :: "string list"
  br_denied :: "string list"

record email_opts =
  eo_requireTopLevelDomain :: bool
  eo_allowDomainLiteral :: bool
  eo_blockedEmails :: "string list"

datatype validity = Valid | Invalid

record email_result =
  er_validity :: validity
  er_blocked :: "string list"

datatype si_entity = EmailEntity | PhoneNumberEntity | IpAddressEntity
  | CreditCardNumberEntity | CustomEntity string

datatype si_entities = AllowEntities "si_entity list" | DenyEntities "si_entity list"

record detected_entity =
  de_start :: nat
  de_end :: nat
  de_identifiedType :: si_entity

record si_result =
  sr_allowed :: "detected_entity list"
  sr_denied :: "detected_entity list"

record analyzer =
  az_detectBot :: "arcjet_context \<Rightarrow> details \<Rightarrow> bot_config \<Rightarrow> js_error + bot_result"
  az_isValidEmail :: "arcjet_context \<Rightarrow> string \<Rightarrow> email_opts \<Rightarrow> js_error + email_result"
  az_detectSensitiveInfo ::
    "arcjet_context \<Rightarrow> string \<Rightarrow> si_entities \<Rightarrow> int \<Rightarrow>
     (string list \<Rightarrow> si_entity list) option \<Rightarrow> js_error + si_result"

definition mode_of :: "arcjet_mode option \<Rightarrow> arcjet_mode" where
  "mode_of m = (if m = Some LIVE then LIVE else DRY_RUN)"

subsection \<open>Rate limits\<close>

datatype duration_input = DurationString string | DurationNumber int

record token_bucket_options =
  tb_mode :: "arcjet_mode option"
  tb_match :: "string option"
  tb_characteristics :: "string list option"
  tb_refillRate :: int
  tb_interval :: duration_input
  tb_capacity :: int

fun tokenBucket_loop ::
  "(duration_input \<Rightarrow> js_error + int) \<Rightarrow> token_bucket_options list \<Rightarrow> rule list \<Rightarrow>
   js_error + rule list" where
  "tokenBucket_loop parse [] rules = Inr rules"
| "tokenBucket_loop parse (opt # opts) rules =
     (case parse (tb_interval opt) of
        Inl err \<Rightarrow> Inl err
      | Inr interval \<Rightarrow>
          tokenBucket_loop parse opts
            (rules @ [\<lparr>r_type = RATE_LIMIT, r_priority = Priority_RateLimit,
               r_mode = mode_of (tb_mode opt), r_characteristics = tb_characteristics opt,
               r_fields = TokenBucketFields (tb_match opt) (tb_refillRate opt) interval
                            (tb_capacity opt),
               r_validate = None, r_protect = None\<rparr>]))"

definition tokenBucket ::
  "(duration_input \<Rightarrow> js_error + int) \<Rightarrow> token_bucket_options option \<Rightarrow>
   token_bucket_options list \<Rightarrow> js_error + rule list" where
  "tokenBucket parse options additionalOptions =
     (case options of
        None \<Rightarrow> Inr []
      | Some opt \<Rightarrow> tokenBucket_loop parse (opt # additionalOptions) [])"

record fixed_window_options =
  fw_mode :: "arcjet_mode option"
  fw_match :: "string option"
  fw_characteristics :: "string list option"
  fw_window :: duration_input
  fw_max :: int

fun fixedWindow_loop ::
  "(duration_input \<Rightarrow> js_error + int) \<Rightarrow> fixed_window_options list \<Rightarrow> rule list \<Rightarrow>
   js_error + rule list" where
  "fixedWindow_loop parse [] rules = Inr rules"
| "fixedWindow_loop parse (opt # opts) rules =
     (case parse (fw_window opt) of
        Inl err \<Rightarrow> Inl err
      | Inr window \<Rightarrow>
          fixedWindow_loop parse opts
            (rules @ [\<lparr>r_type = RATE_LIMIT, r_priority = Priority_RateLimit,
               r_mode = mode_of (fw_mode opt), r_characteristics = fw_characteristics opt,
               r_fields = FixedWindowFields (fw_match opt) (fw_max opt) window,
               r_validate = None, r_protect = None\<rparr>]))"

definition fixedWindow ::
  "(duration_input \<Rightarrow> js_error + int) \<Rightarrow> fixed_window_options option \<Rightarrow>
   fixed_window_options list \<Rightarrow> js_error + rule list" where
  "fixedWindow parse options additionalOptions =
     (case options of
        None \<Rightarrow> Inr []
      | Some opt \<Rightarrow> fixedWindow_loop parse (opt # additionalOptions) [])"

record sliding_window_options =
  sw_mode :: "arcjet_mode option"
  sw_match :: "string option"
  sw_characteristics :: "string list option"
  sw_interval :: duration_input
  sw_max :: int

fun slidingWindow_loop ::
  "(duration_input \<Rightarrow> js_error + int) \<Rightarrow> sliding_window_options list \<Rightarrow> rule list \<Rightarrow>
   js_error + rule list" where
  "slidingWindow_loop parse [] rules = Inr rules"
| "slidingWindow_loop parse (opt # opts) rules =
     (case parse (sw_interval opt) of
        Inl err \<Rightarrow> Inl err
      | Inr interval \<Rightarrow>
          slidingWindow_loop parse opts
            (rules @ [\<lparr>r_type = RATE_LIMIT, r_priority = Priority_RateLimit,
               r_mode = mode_of (sw_mode opt), r_characteristics = sw_characteristics opt,
               r_fields = SlidingWindowFields (sw_match opt) (sw_max opt) interval,
               r_validate = None, r_protect = None\<rparr>]))"

definition slidingWindow ::
  "(duration_input \<Rightarrow> js_error + int) \<Rightarrow> sliding_window_options option \<Rightarrow>
   sliding_window_options list \<Rightarrow> js_error + rule list" where
  "slidingWindow parse options additionalOptions =
     (case options of
        None \<Rightarrow> Inr []
      | Some opt \<Rightarrow> slidingWindow_loop parse (opt # additionalOptions) [])"

subsection \<open>Sensitive information\<close>

text \<open>
  The conversions between the entity names of the protocol and the analyzer's entities.
  An entity name is a string, as its type says.
\<close>

fun protocolSensitiveInfoEntitiesToAnalyze :: "string \<Rightarrow> si_entity" where
  "protocolSensitiveInfoEntitiesToAnalyze entity =
     (if entity = ''EMAIL'' then EmailEntity
      else if entity = ''PHONE_NUMBER'' then PhoneNumberEntity
      else if entity = ''IP_ADDRESS'' then IpAddressEntity
      else if entity = ''CREDIT_CARD_NUMBER'' then CreditCardNumberEntity
      else CustomEntity entity)"

fun analyzeSensitiveInfoEntitiesToString :: "si_entity \<Rightarrow> string" where
  "analyzeSensitiveInfoEntitiesToString EmailEntity = ''EMAIL''"
| "analyzeSensitiveInfoEntitiesToString IpAddressEntity = ''IP_ADDRESS''"
| "analyzeSensitiveInfoEntitiesToString CreditCardNumberEntity = ''CREDIT_CARD_NUMBER''"
| "analyzeSensitiveInfoEntitiesToString PhoneNumberEntity = ''PHONE_NUMBER''"
| "analyzeSensitiveInfoEntitiesToString (CustomEntity val) = val"

definition convertAnalyzeDetectedSensitiveInfoEntity ::
  "detected_entity list \<Rightarrow> identified_entity list" where
  "convertAnalyzeDetectedSensitiveInfoEntity detectedEntities =
     map (\<lambda>detectedEntity.
            \<lparr>ie_start = de_start detectedEntity, ie_end = de_end detectedEntity,
             ie_identifiedType =
               analyzeSensitiveInfoEntitiesToString (de_identifiedType detectedEntity)\<rparr>)
       detectedEntities"

text \<open>
  The options of \<open>sensitiveInfo\<close>. The entity arrays hold strings, as their type says;
  the array that a custom \<open>detect\<close> returns may hold \<open>undefined\<close> (\<open>None\<close>).
\<close>

record sensitive_info_options =
  si_allow :: "string list option"
  si_deny :: "string list option"
  si_contextWindowSize :: "int option"
  si_mode :: "arcjet_mode option"
  si_detect :: "(string list \<Rightarrow> string option list) option"

text \<open>\<open>x || 1\<close> for an optional number: \<open>undefined\<close> and \<open>0\<close> are falsy.\<close>

definition or_one :: "int option \<Rightarrow> int" where
  "or_one x = (case x of None \<Rightarrow> 1 | Some n \<Rightarrow> if n = 0 then 1 else n)"

definition no_body_message :: string where
  "no_body_message = ''Couldn'' @ [CHR 0x27] @
     ''t read the body of the request to perform sensitive info identification.''"

text \<open>
  The pieces of the \<open>protect\<close> method of a sensitive-info rule: the wrapped custom
  detector, the entity list with its tag, and the rule result for the analyzer's answer.
\<close>

definition convertedDetect ::
  "sensitive_info_options \<Rightarrow> (string list \<Rightarrow> si_entity list) option" where
  "convertedDetect opt =
     (case si_detect opt of
        None \<Rightarrow> None
      | Some detect \<Rightarrow>
          Some (\<lambda>tokens.
            map (\<lambda>e. protocolSensitiveInfoEntitiesToAnalyze (the e))
              (filter (\<lambda>e. e \<noteq> None) (detect tokens))))"

definition entities_of :: "sensitive_info_options \<Rightarrow> si_entities" where
  "entities_of opt =
     (let entities0 = AllowEntities [];
          entities1 = (case si_allow opt of
                         Some allow \<Rightarrow>
                           AllowEntities (map protocolSensitiveInfoEntitiesToAnalyze allow)
                       | None \<Rightarrow> entities0)
      in case si_deny opt of
           Some deny \<Rightarrow> DenyEntities (map protocolSensitiveInfoEntitiesToAnalyze deny)
         | None \<Rightarrow> entities1)"

definition sensitiveInfo_result :: "si_result \<Rightarrow> rule_result" where
  "sensitiveInfo_result result =
     (let reason = SensitiveInfoReason
            (convertAnalyzeDetectedSensitiveInfoEntity (sr_denied result))
            (convertAnalyzeDetectedSensitiveInfoEntity (sr_allowed result))
      in if length (sr_denied result) = 0
         then \<lparr>rr_ttl = 0, rr_state = RUN, rr_conclusion = ALLOW, rr_reason = reason\<rparr>
         else \<lparr>rr_ttl = 0, rr_state = RUN, rr_conclusion = DENY, rr_reason = reason\<rparr>)"

text \<open>
  The \<open>protect\<close> method of the rule built from \<open>opt\<close>, inside a call of
  \<open>sensitiveInfo\<close> whose first argument is \<open>options\<close>.
\<close>

definition sensitiveInfo_protect ::
  "analyzer \<Rightarrow> sensitive_info_options \<Rightarrow> sensitive_info_options \<Rightarrow>
   arcjet_context \<Rightarrow> details \<Rightarrow> js_error + rule_result" where
  "sensitiveInfo_protect az options opt context details =
     (case c_getBody context of
        Inl err \<Rightarrow> Inl err
      | Inr None \<Rightarrow>
          Inr \<lparr>rr_ttl = 0, rr_state = NOT_RUN, rr_conclusion = ERROR,
               rr_reason = ErrorReason (ErrString no_body_message)\<rparr>
      | Inr (Some body) \<Rightarrow>
          (case az_detectSensitiveInfo az context body (entities_of opt)
                  (or_one (si_contextWindowSize options)) (convertedDetect opt) of
             Inl err \<Rightarrow> Inl err
           | Inr result \<Rightarrow> Inr (sensitiveInfo_result result)))"

definition sensitiveInfo_rule ::
  "analyzer \<Rightarrow> sensitive_info_options \<Rightarrow> sensitive_info_options \<Rightarrow> rule" where
  "sensitiveInfo_rule az options opt =
     \<lparr>r_type = SENSITIVE_INFO, r_priority = Priority_SensitiveInfo,
      r_mode = mode_of (si_mode opt), r_characteristics = None,
      r_fields = SensitiveInfoFields
        (case si_allow opt of Some allow \<Rightarrow> allow | None \<Rightarrow> [])
        (case si_deny opt of Some deny \<Rightarrow> deny | None \<Rightarrow> []),
      r_validate = Some (\<lambda>context details. None),
      r_protect = Some (sensitiveInfo_protect az options opt)\<rparr>"

fun sensitiveInfo_loop ::
  "analyzer \<Rightarrow> sensitive_info_options \<Rightarrow> sensitive_info_options list \<Rightarrow> rule list \<Rightarrow>
   js_error + rule list" where
  "sensitiveInfo_loop az options [] rules = Inr rules"
| "sensitiveInfo_loop az options (opt # opts) rules =
     (if si_allow opt \<noteq> None \<and> si_deny opt \<noteq> None
      then Inl (ErrMessage ''Both allow and deny cannot be provided to sensitiveInfo'')
      else sensitiveInfo_loop az options opts (rules @ [sensitiveInfo_rule az options opt]))"

definition sensitiveInfo ::
  "analyzer \<Rightarrow> sensitive_info_options \<Rightarrow> sensitive_info_options list \<Rightarrow>
   js_error + rule list" where
  "sensitiveInfo az options additionalOptions =
     sensitiveInfo_loop az options (options # additionalOptions) []"

subsection \<open>Email validation\<close>

definition isEmailType :: "string \<Rightarrow> bool" where
  "isEmailType t = (t = ''FREE'' \<or> t = ''DISPOSABLE'' \<or> t = ''NO_MX_RECORDS''
     \<or> t = ''NO_GRAVATAR'' \<or> t = ''INVALID'')"

record email_options =
  em_mode :: "arcjet_mode option"
  em_block :: "string list option"
  em_requireTopLevelDomain :: "bool option"
  em_allowDomainLiteral :: "bool option"

definition no_email_options :: email_options where
  "no_email_options = \<lparr>em_mode = None, em_block = None, em_requireTopLevelDomain = None,
     em_allowDomainLiteral = None\<rparr>"

definition validateEmail_rule :: "analyzer \<Rightarrow> email_options \<Rightarrow> rule" where
  "validateEmail_rule az opt =
     (let block = (case em_block opt of Some b \<Rightarrow> b | None \<Rightarrow> []);
          requireTopLevelDomain =
            (case em_requireTopLevelDomain opt of Some b \<Rightarrow> b | None \<Rightarrow> True);
          allowDomainLiteral =
            (case em_allowDomainLiteral opt of Some b \<Rightarrow> b | None \<Rightarrow> False);
          emailOpts = \<lparr>eo_requireTopLevelDomain = requireTopLevelDomain,
                       eo_allowDomainLiteral = allowDomainLiteral, eo_blockedEmails = block\<rparr>
      in \<lparr>r_type = EMAIL, r_priority = Priority_EmailValidation,
           r_mode = mode_of (em_mode opt), r_characteristics = None,
           r_fields = EmailFields block requireTopLevelDomain allowDomainLiteral,
           r_validate = Some (\<lambda>context details.
             if rd_email details \<noteq> None then None
             else Some (ErrMessage ''ValidateEmail requires `email` to be set.'')),
           r_protect = Some (\<lambda>context details.
             case az_isValidEmail az context (the (rd_email details)) emailOpts of
               Inl err \<Rightarrow> Inl err
             | Inr result \<Rightarrow>
                 if er_validity result = Valid
                 then Inr \<lparr>rr_ttl = 0, rr_state = RUN, rr_conclusion = ALLOW,
                           rr_reason = EmailReason []\<rparr>
                 else Inr \<lparr>rr_ttl = 0, rr_state = RUN, rr_conclusion = DENY,
                           rr_reason = EmailReason (filter isEmailType (er_blocked result))\<rparr>)\<rparr>)"

definition validateEmail :: "analyzer \<Rightarrow> email_options option \<Rightarrow> email_options list \<Rightarrow> rule list" where
  "validateEmail az options additionalOptions =
     map (validateEmail_rule az)
       ((case options of Some opt \<Rightarrow> opt | None \<Rightarrow> no_email_options) # additionalOptions)"

subsection \<open>Bot detection\<close>

record bot_options =
  bo_mode :: "arcjet_mode option"
  bo_allow :: "string list option"
  bo_deny :: "string list option"

definition default_bot_options :: bot_options where
  "default_bot_options = \<lparr>bo_mode = None, bo_allow = Some [], bo_deny = None\<rparr>"

text \<open>
  The entries of the headers carry lower-case names, which is how \<open>has\<close> compares.
  \<open>protect\<close> always puts an \<open>ArcjetHeaders\<close> object into the details, so of the three
  checks of the bot rule's \<open>validate\<close> only the one for the \<open>user-agent\<close> header can
  fail. The entries of \<open>allow\<close> and \<open>deny\<close> are strings, as their type says.
\<close>

definition headers_has :: "(string \<times> string) list \<Rightarrow> string \<Rightarrow> bool" where
  "headers_has hs name = (name \<in> fst ` set hs)"

definition detectBot_rule :: "analyzer \<Rightarrow> bot_options \<Rightarrow> rule" where
  "detectBot_rule az opt =
     (let config0 = AllowedBotConfig [] True;
          config1 = (case bo_allow opt of
                       Some allow \<Rightarrow> AllowedBotConfig allow True | None \<Rightarrow> config0);
          config = (case bo_deny opt of
                      Some deny \<Rightarrow> DeniedBotConfig deny True | None \<Rightarrow> config1)
      in \<lparr>r_type = BOT, r_priority = Priority_BotDetection,
           r_mode = mode_of (bo_mode opt), r_characteristics = None,
           r_fields = BotFields
             (case bo_allow opt of Some allow \<Rightarrow> allow | None \<Rightarrow> [])
             (case bo_deny opt of Some deny \<Rightarrow> deny | None \<Rightarrow> []),
           r_validate = Some (\<lambda>context details.
             if \<not> headers_has (rd_headers details) ''user-agent''
             then Some (ErrMessage ''bot detection requires user-agent header'')
             else None),
           r_protect = Some (\<lambda>context request.
             case az_detectBot az context (toAnalyzeRequest request) config of
               Inl err \<Rightarrow> Inl err
             | Inr result \<Rightarrow>
                 if length (br_denied result) > 0
                 then Inr \<lparr>rr_ttl = 60, rr_state = RUN, rr_conclusion = DENY,
                           rr_reason = BotReason (br_allowed result) (br_denied result)\<rparr>
                 else Inr \<lparr>rr_ttl = 0, rr_state = RUN, rr_conclusion = ALLOW,
                           rr_reason = BotReason (br_allowed result) (br_denied result)\<rparr>)\<rparr>)"

fun detectBot_loop :: "analyzer \<Rightarrow> bot_options list \<Rightarrow> rule list \<Rightarrow> js_error + rule list" where
  "detectBot_loop az [] rules = Inr rules"
| "detectBot_loop az (opt # opts) rules =
     (if bo_allow opt \<noteq> None \<and> bo_deny opt \<noteq> None
      then Inl (ErrMessage ''Both allow and deny cannot be provided to detectBot'')
      else detectBot_loop az opts (rules @ [detectBot_rule az opt]))"

definition detectBot ::
  "analyzer \<Rightarrow> bot_options option \<Rightarrow> bot_options list \<Rightarrow> js_error + rule list" where
  "detectBot az options additionalOptions =
     detectBot_loop az
       ((case options of Some opt \<Rightarrow> opt | None \<Rightarrow> default_bot_options) # additionalOptions) []"

subsection \<open>Shield\<close>

definition shield_rule :: "arcjet_mode option \<Rightarrow> rule" where
  "shield_rule m = \<lparr>r_type = SHIELD, r_priority = Priority_Shield, r_mode = mode_of m,
     r_characteristics = None, r_fields = ShieldFields, r_validate = None, r_protect = None\<rparr>"

definition shield :: "arcjet_mode option option \<Rightarrow> arcjet_mode option list \<Rightarrow> rule list" where
  "shield options additionalOptions =
     map shield_rule ((case options of Some opt \<Rightarrow> opt | None \<Rightarrow> None) # additionalOptions)"

section \<open>State: rule objects, the block cache, the clock and the calls made\<close>

datatype log_level = Debug | Warn | Error

text \<open>
  What the engine does to its collaborators, in order: logger calls (the format string and
  its string arguments), the timer calls \<open>log.time\<close> and \<open>log.timeEnd\<close> (made when
  the logger has these methods), calls of the cache's methods (\<open>CacheTtl\<close> with the
  value returned), calls of a rule's \<open>validate\<close> and \<open>protect\<close> (by index in the rule
  list), and calls of the client, with the rule objects as they are at the call.
\<close>

datatype event =
    Log log_level string "string list"
  | Time string
  | TimeEnd string
  | CacheGet string
  | CacheTtl string int
  | CacheSet string reason int
  | RuleValidate nat
  | RuleProtect nat
  | Decide arcjet_context details "rule list"
  | Report arcjet_context details decision "rule list"

text \<open>
  Rule objects live in a store addressed by natural numbers, so that two rule lists can
  hold the same object. The cache is the pair of maps of the class \<open>Cache\<close>. The clock
  gives the value of the \<open>n\<close>-th reading of \<open>nowInSeconds()\<close>; nothing is assumed
  about how readings follow each other.
\<close>

record engine_state =
  heap :: "nat \<Rightarrow> rule"
  cache_expires :: "string \<rightharpoonup> int"
  cache_data :: "string \<rightharpoonup> reason"
  clock :: "nat \<Rightarrow> int"
  clock_reads :: nat
  trace :: "event list"

definition emit :: "event \<Rightarrow> engine_state \<Rightarrow> engine_state" where
  "emit e s = s\<lparr>trace := trace s @ [e]\<rparr>"

definition nowInSeconds :: "engine_state \<Rightarrow> int \<times> engine_state" where
  "nowInSeconds s = (clock s (clock_reads s), s\<lparr>clock_reads := Suc (clock_reads s)\<rparr>)"

definition cache_ttl :: "string \<Rightarrow> engine_state \<Rightarrow> int \<times> engine_state" where
  "cache_ttl k s =
     (let (now, s1) = nowInSeconds s;
          expiresAt = (case cache_expires s1 k of None \<Rightarrow> now | Some e \<Rightarrow> e)
      in (expiresAt - now, emit (CacheTtl k (expiresAt - now)) s1))"

definition cache_get :: "string \<Rightarrow> engine_state \<Rightarrow> reason option \<times> engine_state" where
  "cache_get k s =
     (let (ttl, s1) = cache_ttl k (emit (CacheGet k) s)
      in if ttl > 0 then (cache_data s1 k, s1)
         else (None, s1\<lparr>cache_expires := (cache_expires s1)(k := None),
                         cache_data := (cache_data s1)(k := None)\<rparr>))"

definition cache_set :: "string \<Rightarrow> reason \<Rightarrow> int \<Rightarrow> engine_state \<Rightarrow> engine_state" where
  "cache_set k v expiresAt s =
     (emit (CacheSet k v expiresAt) s)
       \<lparr>cache_expires := (cache_expires s)(k \<mapsto> expiresAt),
        cache_data := (cache_data s)(k \<mapsto> v)\<rparr>"

section \<open>The engine\<close>

text \<open>
  What \<open>protect\<close> closes over: the key and the characteristics of the options, the
  client's \<open>decide\<close> (it resolves to a decision or rejects; \<open>report\<close> returns nothing and
  is recorded in the trace), the analyzer's \<open>generateFingerprint\<close> and the runtime tag.
  \<open>generateFingerprint\<close>, \<open>report\<close> and the logger are taken to return: \<open>protect\<close>
  calls them outside of any \<open>try\<close>. The block cache of the state is the one cache that
  an \<open>arcjet(...)\<close> call creates and that every engine derived from it shares.
\<close>

type_synonym client_decide = "arcjet_context \<Rightarrow> details \<Rightarrow> rule list \<Rightarrow> js_error + decision"

record closure =
  cl_key :: string
  cl_characteristics :: "string list option"
  cl_decide :: client_decide
  cl_generateFingerprint :: "base_context \<Rightarrow> details \<Rightarrow> string"
  cl_runtime :: string

definition default_result :: rule_result where
  "default_result = \<lparr>rr_ttl = 0, rr_state = NOT_RUN, rr_conclusion = ALLOW,
     rr_reason = GenericReason\<rparr>"

definition error_result :: "js_error \<Rightarrow> rule_result" where
  "error_result err = \<lparr>rr_ttl = 0, rr_state = RUN, rr_conclusion = ERROR,
     rr_reason = ErrorReason err\<rparr>"

text \<open>
  The first loop of \<open>protect\<close>: one default result per rule, and the engine's
  characteristics written into every rate-limit rule object that has none.
\<close>

fun prepare ::
  "string list \<Rightarrow> nat list \<Rightarrow> rule_result list \<Rightarrow> engine_state \<Rightarrow>
   rule_result list \<times> engine_state" where
  "prepare characteristics [] results s = (results, s)"
| "prepare characteristics (a # as) results s =
     (let results' = results @ [default_result];
          candidate_rule = heap s a;
          s' = (if isRateLimitRule candidate_rule \<and> r_characteristics candidate_rule = None
                then s\<lparr>heap := (heap s)
                       (a := candidate_rule\<lparr>r_characteristics := Some characteristics\<rparr>)\<rparr>
                else s)
      in prepare characteristics as results' s')"

text \<open>The \<open>try\<close> block of the second loop and its \<open>catch\<close>.\<close>

definition catch_rule ::
  "rule \<Rightarrow> nat \<Rightarrow> js_error \<Rightarrow> rule_result list \<Rightarrow> engine_state \<Rightarrow>
   rule_result list \<times> engine_state" where
  "catch_rule rule idx err results s =
     (results[idx := error_result err],
      emit (Log Error ''Failure running rule: %s due to %s''
              [type_name (r_type rule), errorMessage err]) s)"

definition try_rule ::
  "arcjet_context \<Rightarrow> details \<Rightarrow> rule \<Rightarrow> nat \<Rightarrow> rule_result list \<Rightarrow> engine_state \<Rightarrow>
   rule_result list \<times> engine_state" where
  "try_rule context details rule idx results s =
     (let s1 = emit (RuleValidate idx) s
      in case the (r_validate rule) context details of
           Some err \<Rightarrow> catch_rule rule idx err results s1
         | None \<Rightarrow>
             (let s2 = emit (RuleProtect idx) s1
              in case the (r_protect rule) context details of
                   Inl err \<Rightarrow> catch_rule rule idx err results s2
                 | Inr res \<Rightarrow>
                     (results[idx := res], emit (Log Debug ''Local rule result:'' []) s2)))"

text \<open>The format string of the override warning; it quotes the rule type.\<close>

definition dry_run_warning :: string where
  "dry_run_warning = ''Dry run mode is enabled for '' @ [CHR 0x22] @ ''%s'' @ [CHR 0x22] @
     '' rule. Overriding decision. Decision was: %s''"

text \<open>
  One iteration of the second loop, for the rule object at address \<open>a\<close>, which is at
  index \<open>idx\<close> of \<open>rules\<close>: a decision when the iteration returns from \<open>protect\<close>,
  \<open>None\<close> when the loop goes on.
\<close>

definition run_rule ::
  "arcjet_context \<Rightarrow> details \<Rightarrow> nat list \<Rightarrow> nat \<Rightarrow> nat \<Rightarrow> rule_result list \<Rightarrow>
   engine_state \<Rightarrow> decision option \<times> rule_result list \<times> engine_state" where
  "run_rule context details rules idx a results s =
     (let rule = heap s a
      in if \<not> isLocalRule rule then (None, results, s)
         else
           (let (results', s2) =
                  try_rule context details rule idx results
                    (emit (Time (type_name (r_type rule))) s);
                s3 = emit (TimeEnd (type_name (r_type rule))) s2
            in if rr_isDenied (results' ! idx) then
                 (let s4 = emit (TimeEnd ''local'') s3;
                      decision = ArcjetDenyDecision (rr_ttl (results' ! idx))
                                   (rr_reason (results' ! idx)) results';
                      s5 = emit (Report context details decision (map (heap s4) rules)) s4
                  in if r_mode rule \<noteq> DRY_RUN then
                       (if rr_ttl (results' ! idx) > 0 then
                          (let (now, s6) =
                                 nowInSeconds
                                   (emit (Log Debug ''Caching decision for %d seconds'' []) s5)
                           in (Some decision, results',
                               cache_set (c_fingerprint context) (d_reason decision)
                                 (now + d_ttl decision) s6))
                        else (Some decision, results', s5))
                     else
                       (None, results',
                        emit (Log Warn dry_run_warning [type_name (r_type rule), ''DENY'']) s5))
               else (None, results', s3)))"

fun local_loop ::
  "arcjet_context \<Rightarrow> details \<Rightarrow> nat list \<Rightarrow> nat list \<Rightarrow> nat \<Rightarrow> rule_result list \<Rightarrow>
   engine_state \<Rightarrow> decision option \<times> rule_result list \<times> engine_state" where
  "local_loop context details rules [] idx results s = (None, results, s)"
| "local_loop context details rules (a # rest) idx results s =
     (case run_rule context details rules idx a results s of
        (Some decision, results', s') \<Rightarrow> (Some decision, results', s')
      | (None, results', s') \<Rightarrow> local_loop context details rules rest (Suc idx) results' s')"

text \<open>
  \<open>protect\<close> up to the end of the second loop: \<open>Inl\<close> when it has returned a decision
  (too many rules, a cached block, a denying rule that is not in dry-run mode), \<open>Inr\<close>
  with the context, the details and the results so far when it goes on to the remote call.
\<close>

definition no_rules_warning :: string where
  "no_rules_warning =
     ''Calling `protect()` with no rules is deprecated. Did you mean to configure the Shield rule?''"

definition protect_details :: "request option \<Rightarrow> details" where
  "protect_details request =
     request_details (case request of None \<Rightarrow> empty_request | Some r \<Rightarrow> r)"

definition protect_context :: "closure \<Rightarrow> adapter_context \<Rightarrow> details \<Rightarrow> arcjet_context" where
  "protect_context cl ctx details =
     (let characteristics = (case cl_characteristics cl of Some cs \<Rightarrow> cs | None \<Rightarrow> []);
          baseContext = \<lparr>c_key = cl_key cl, c_characteristics = characteristics,
                         c_getBody = ac_getBody ctx\<rparr>;
          fingerprint = cl_generateFingerprint cl baseContext (toAnalyzeRequest details)
      in \<lparr>c_key = cl_key cl, c_characteristics = characteristics,
           c_getBody = ac_getBody ctx, c_fingerprint = fingerprint,
           c_runtime = cl_runtime cl\<rparr>)"

definition protect_local ::
  "closure \<Rightarrow> nat list \<Rightarrow> adapter_context \<Rightarrow> request option \<Rightarrow> engine_state \<Rightarrow>
   (decision \<times> engine_state) +
   (arcjet_context \<times> details \<times> rule_result list \<times> engine_state)" where
  "protect_local cl rules ctx request s =
     (let details = protect_details request;
          s1 = emit (Time ''fingerprint'') (emit (Time ''local'') s);
          context = protect_context cl ctx details;
          fingerprint = c_fingerprint context;
          s2 = emit (TimeEnd ''fingerprint'')
                 (emit (Log Debug ''fingerprint (%s): %s'' [cl_runtime cl, fingerprint]) s1);
          s3 = (if length rules < 1 then emit (Log Warn no_rules_warning []) s2 else s2)
      in if length rules > 10 then
           (let s4 = emit (Log Error
                       ''Failure running rules. Only 10 rules may be specified.'' []) s3;
                decision = ArcjetErrorDecision 0
                             (ErrorReason (ErrString ''Only 10 rules may be specified'')) []
            in Inl (decision, emit (Report context details decision []) s4))
         else
           (let (results, s4) = prepare (c_characteristics context) rules [] s3;
                (existingBlockReason, s5) = cache_get fingerprint (emit (Time ''cache'') s4);
                s6 = emit (TimeEnd ''cache'') s5
            in case existingBlockReason of
                 Some r \<Rightarrow>
                   (let s7 = emit (Log Debug ''decide: alreadyBlocked'' [])
                               (emit (TimeEnd ''local'') s6);
                        (ttl, s8) = cache_ttl fingerprint s7;
                        decision = ArcjetDenyDecision ttl r results;
                        s9 = emit (Report context details decision (map (heap s8) rules)) s8
                    in Inl (decision, emit (Log Debug ''decide: already blocked'' []) s9))
               | None \<Rightarrow>
                   (case local_loop context details rules rules 0 results s6 of
                      (Some decision, results', s7) \<Rightarrow> Inl (decision, s7)
                    | (None, results', s7) \<Rightarrow> Inr (context, details, results', s7))))"

text \<open>The remote call, with its \<open>try\<close>, \<open>catch\<close> and \<open>finally\<close>.\<close>

definition protect_remote ::
  "closure \<Rightarrow> nat list \<Rightarrow> arcjet_context \<Rightarrow> details \<Rightarrow> rule_result list \<Rightarrow> engine_state \<Rightarrow>
   decision \<times> engine_state" where
  "protect_remote cl rules context details results s =
     (let s1 = emit (Time ''decideApi'') (emit (Time ''remote'') (emit (TimeEnd ''local'') s));
          s2 = emit (Decide context details (map (heap s1) rules)) s1
      in case cl_decide cl context details (map (heap s1) rules) of
           Inr decision \<Rightarrow>
             (let s3 = emit (TimeEnd ''decideApi'') s2;
                  s4 = (if d_isDenied decision \<and> d_ttl decision > 0 then
                          (let (now, s') =
                                 nowInSeconds
                                   (emit (Log Debug
                                      ''decide: Caching block locally for %d seconds'' []) s3)
                           in cache_set (c_fingerprint context) (d_reason decision)
                                (now + d_ttl decision) s')
                        else s3)
              in (decision, emit (TimeEnd ''remote'') s4))
         | Inl err \<Rightarrow>
             (let s3 = emit (Log Error ''Encountered problem getting remote decision: %s''
                               [errorMessage err]) s2;
                  decision = ArcjetErrorDecision 0 (ErrorReason err) results;
                  s4 = emit (Report context details decision (map (heap s3) rules)) s3
              in (decision, emit (TimeEnd ''remote'') s4)))"

definition protect ::
  "closure \<Rightarrow> nat list \<Rightarrow> adapter_context \<Rightarrow> request option \<Rightarrow> engine_state \<Rightarrow>
   decision \<times> engine_state" where
  "protect cl rules ctx request s =
     (case protect_local cl rules ctx request s of
        Inl (decision, s') \<Rightarrow> (decision, s')
      | Inr (context, details, results, s') \<Rightarrow>
          protect_remote cl rules context details results s')"





text \<open>
  The rule lists of engines. \<open>Array.prototype.sort\<close> is stable, and so is \<open>sort_key\<close>;
  both sort a fresh array (\<open>flat\<close> and the spread copy), so no list that exists is
  reordered. The priorities are read from the rule objects.
\<close>

definition rootRules :: "(nat \<Rightarrow> rule) \<Rightarrow> nat list list \<Rightarrow> nat list" where
  "rootRules h rules = sort_key (\<lambda>a. r_priority (h a)) (concat rules)"

definition withRule :: "(nat \<Rightarrow> rule) \<Rightarrow> nat list \<Rightarrow> nat list \<Rightarrow> nat list" where
  "withRule h baseRules rule = sort_key (\<lambda>a. r_priority (h a)) (baseRules @ rule)"

text \<open>
  \<open>arcjet(options)\<close>: the options, with \<open>o_log\<close> telling whether a logger was given, and
  the engine it returns, which is the closure and the rule list of its two methods.
\<close>

record options =
  o_key :: string
  o_rules :: "nat list list"
  o_characteristics :: "string list option"
  o_client :: "client_decide option"
  o_log :: bool

record engine =
  en_closure :: closure
  en_rules :: "nat list"

definition arcjet ::
  "(base_context \<Rightarrow> details \<Rightarrow> string) \<Rightarrow> string \<Rightarrow> options \<Rightarrow> (nat \<Rightarrow> rule) \<Rightarrow>
   js_error + engine" where
  "arcjet generateFingerprint rt opts h =
     (if \<not> o_log opts then Inl (ErrMessage ''Log is required'')
      else case o_client opts of
             None \<Rightarrow> Inl (ErrMessage ''Client is required'')
           | Some client \<Rightarrow>
               Inr \<lparr>en_closure = \<lparr>cl_key = o_key opts,
                                   cl_characteristics = o_characteristics opts,
                                   cl_decide = client,
                                   cl_generateFingerprint = generateFingerprint,
                                   cl_runtime = rt\<rparr>,
                    en_rules = rootRules h (o_rules opts)\<rparr>)"



section \<open>Notions used in the statements\<close>

text \<open>
  The rule objects after the first loop of \<open>protect\<close> has run over \<open>rules\<close>: a
  rate-limit rule of the list that had no characteristics has the engine's.
\<close>

definition inject_characteristics ::
  "string list \<Rightarrow> nat list \<Rightarrow> (nat \<Rightarrow> rule) \<Rightarrow> (nat \<Rightarrow> rule)" where
  "inject_characteristics cs rules h =
     (\<lambda>a. if a \<in> set rules \<and> isRateLimitRule (h a) \<and> r_characteristics (h a) = None
          then (h a)\<lparr>r_characteristics := Some cs\<rparr> else h a)"

text \<open>The calls that every \<open>protect\<close> starts with.\<close>

definition fingerprint_events :: "closure \<Rightarrow> string \<Rightarrow> event list" where
  "fingerprint_events cl fingerprint =
     [Time ''local'', Time ''fingerprint'',
      Log Debug ''fingerprint (%s): %s'' [cl_runtime cl, fingerprint],
      TimeEnd ''fingerprint'']"




text \<open>The calls of \<open>client.decide\<close>, and the calls of a rule's methods.\<close>

fun is_decide :: "event \<Rightarrow> bool" where
  "is_decide (Decide c d rs) = True"
| "is_decide e = False"


fun is_rule_call :: "event \<Rightarrow> bool" where
  "is_rule_call (RuleValidate i) = True"
| "is_rule_call (RuleProtect i) = True"
| "is_rule_call e = False"

section \<open>Concrete collaborators, rules and states\<close>

text \<open>
  A fingerprint made of the address of the client; an analyzer that finds the bot
  \<open>CURL\<close> when it is on the deny list, holds every address but \<open>not-an-email\<close> to be
  both disposable and free, and reports one entity that is as long as the context window
  it is given; three clients; a parser of durations.
\<close>

definition stub_fingerprint :: "base_context \<Rightarrow> details \<Rightarrow> string" where
  "stub_fingerprint b d = ''fp_'' @ (case rd_ip d of Some ip \<Rightarrow> ip | None \<Rightarrow> [])"

definition stub_analyzer :: analyzer where
  "stub_analyzer =
     \<lparr>az_detectBot = (\<lambda>c d cfg. Inr (case cfg of
          DeniedBotConfig es skip \<Rightarrow>
            \<lparr>br_allowed = [], br_denied = filter (\<lambda>e. e = ''CURL'') es\<rparr>
        | AllowedBotConfig es skip \<Rightarrow> \<lparr>br_allowed = [], br_denied = []\<rparr>)),
      az_isValidEmail = (\<lambda>c email opts.
          if email = ''not-an-email''
          then Inr \<lparr>er_validity = Invalid, er_blocked = [''INVALID'']\<rparr>
          else Inr \<lparr>er_validity =
                      (if filter (\<lambda>t. t \<in> set (eo_blockedEmails opts))
                            [''DISPOSABLE'', ''FREE''] = [] then Valid else Invalid),
                    er_blocked = filter (\<lambda>t. t \<in> set (eo_blockedEmails opts))
                                   [''DISPOSABLE'', ''FREE'']\<rparr>),
      az_detectSensitiveInfo = (\<lambda>c body ents w det.
          Inr \<lparr>sr_allowed = [],
               sr_denied = [\<lparr>de_start = 0, de_end = nat w,
                             de_identifiedType = EmailEntity\<rparr>]\<rparr>)\<rparr>"

definition stub_parse :: "duration_input \<Rightarrow> js_error + int" where
  "stub_parse d = (case d of
       DurationNumber n \<Rightarrow> Inr n
     | DurationString t \<Rightarrow>
         if t = ''1h'' then Inr 3600 else Inl (ErrMessage ''unsupported duration''))"

definition allow_client :: client_decide where
  "allow_client = (\<lambda>c d rs. Inr \<lparr>d_conclusion = ALLOW, d_ttl = 0, d_reason = GenericReason,
     d_results = []\<rparr>)"

definition deny_client :: client_decide where
  "deny_client = (\<lambda>c d rs. Inr \<lparr>d_conclusion = DENY, d_ttl = 60,
     d_reason = RemoteReason ''shield'', d_results = []\<rparr>)"

definition failing_client :: client_decide where
  "failing_client = (\<lambda>c d rs. Inl (ErrMessage ''deadline exceeded''))"

definition test_closure :: "client_decide \<Rightarrow> closure" where
  "test_closure client = \<lparr>cl_key = ''ajkey_test'', cl_characteristics = Some [''ip.src''],
     cl_decide = client, cl_generateFingerprint = stub_fingerprint, cl_runtime = ''node''\<rparr>"

definition test_ctx :: adapter_context where
  "test_ctx = \<lparr>ac_getBody = Inr (Some ''my email is joe@mailinator.example'')\<rparr>"

definition test_request :: request where
  "test_request = empty_request\<lparr>rq_ip := Some ''1.2.3.4'',
     rq_headers := [(''user-agent'', ''curl/8.0'')],
     rq_email := Some (JString ''joe@mailinator.example'')\<rparr>"

definition test_context :: "client_decide \<Rightarrow> request \<Rightarrow> arcjet_context" where
  "test_context client rq =
     protect_context (test_closure client) test_ctx (protect_details (Some rq))"

text \<open>
  A store that holds the given rule objects at the addresses \<open>0, 1, ...\<close> (and shield
  rules elsewhere), and the state of an engine that has not run yet, with a clock that
  stands at \<open>1000\<close>.
\<close>

definition heap_of :: "rule list \<Rightarrow> nat \<Rightarrow> rule" where
  "heap_of rs = (\<lambda>a. if a < length rs then rs ! a else shield_rule None)"

definition start_state :: "rule list \<Rightarrow> engine_state" where
  "start_state rs = \<lparr>heap = heap_of rs, cache_expires = Map.empty, cache_data = Map.empty,
     clock = (\<lambda>n. 1000), clock_reads = 0, trace = []\<rparr>"

definition blocked_state :: "rule list \<Rightarrow> engine_state" where
  "blocked_state rs = (start_state rs)
     \<lparr>cache_expires := [''fp_1.2.3.4'' \<mapsto> 1060],
      cache_data := [''fp_1.2.3.4'' \<mapsto> BotReason [] [''CURL'']]\<rparr>"

definition expired_state :: engine_state where
  "expired_state = (start_state [])\<lparr>cache_expires := [''fp_1.2.3.4'' \<mapsto> 995],
     cache_data := [''fp_1.2.3.4'' \<mapsto> BotReason [] [''CURL'']]\<rparr>"

definition live_email :: "string \<Rightarrow> email_options" where
  "live_email kind = \<lparr>em_mode = Some LIVE, em_block = Some [kind],
     em_requireTopLevelDomain = None, em_allowDomainLiteral = None\<rparr>"

definition email_rules :: "rule list" where
  "email_rules = validateEmail stub_analyzer (Some (live_email ''DISPOSABLE''))
     [live_email ''FREE'']"

definition dry_email_rules :: "rule list" where
  "dry_email_rules = validateEmail stub_analyzer
     (Some ((live_email ''DISPOSABLE'')\<lparr>em_mode := None\<rparr>)) []"

definition bot_rule :: rule where
  "bot_rule = detectBot_rule stub_analyzer
     \<lparr>bo_mode = Some LIVE, bo_allow = None, bo_deny = Some [''CURL'']\<rparr>"

definition eleven_rules :: "rule list" where
  "eleven_rules = shield None (replicate 10 None)"

definition bucket_rule :: rule where
  "bucket_rule = \<lparr>r_type = RATE_LIMIT, r_priority = Priority_RateLimit, r_mode = LIVE,
     r_characteristics = None, r_fields = TokenBucketFields None 10 3600 100,
     r_validate = None, r_protect = None\<rparr>"

text \<open>
  A state whose clock advances by ten seconds at every reading, and the state that an
  engine without rules leaves behind when the remote decision was a DENY with a
  \<open>ttl\<close> of 60 (its trace emptied, so that the next call's trace stands alone). A
  request without a \<open>user-agent\<close> header. The result of the email rule that blocks
  disposable addresses. An engine whose one rule is the rate limit at address \<open>0\<close>.
  Option objects for \<open>sensitiveInfo\<close>: a first one with a context window of 5, a
  first one with none, and a second one with a context window of 3.
\<close>

definition ticking_state :: engine_state where
  "ticking_state = (start_state [])\<lparr>clock := (\<lambda>n. 1000 + 10 * int n)\<rparr>"

definition after_remote_deny :: engine_state where
  "after_remote_deny =
     (snd (protect (test_closure deny_client) [] test_ctx (Some test_request) ticking_state))
       \<lparr>trace := []\<rparr>"

definition no_agent_request :: request where
  "no_agent_request = test_request\<lparr>rq_headers := []\<rparr>"

definition disposable_denied :: rule_result where
  "disposable_denied = \<lparr>rr_ttl = 0, rr_state = RUN, rr_conclusion = DENY,
     rr_reason = EmailReason [''DISPOSABLE'']\<rparr>"

definition bucket_engine :: engine where
  "bucket_engine = \<lparr>en_closure = test_closure allow_client, en_rules = [0]\<rparr>"

definition first_options :: sensitive_info_options where
  "first_options = \<lparr>si_allow = None, si_deny = Some [''EMAIL''],
     si_contextWindowSize = Some 5, si_mode = Some LIVE, si_detect = None\<rparr>"

definition unsized_options :: sensitive_info_options where
  "unsized_options = \<lparr>si_allow = None, si_deny = Some [''EMAIL''],
     si_contextWindowSize = None, si_mode = Some LIVE, si_detect = None\<rparr>"

definition second_options :: sensitive_info_options where
  "second_options = \<lparr>si_allow = None, si_deny = Some [''PHONE_NUMBER''],
     si_contextWindowSize = Some 3, si_mode = Some LIVE, si_detect = None\<rparr>"






lemmas eval_defs = protect_def protect_local_def protect_remote_def protect_context_def
  protect_details_def request_details_def extraProps_def toAnalyzeRequest_def
  run_rule_def try_rule_def catch_rule_def isLocalRule_def isRateLimitRule_def
  cache_get_def cache_ttl_def cache_set_def nowInSeconds_def emit_def
  ArcjetDenyDecision_def ArcjetErrorDecision_def rr_isDenied_def d_isDenied_def
  default_result_def error_result_def rootRules_def withRule_def
  stub_fingerprint_def stub_analyzer_def stub_parse_def
  allow_client_def deny_client_def failing_client_def
  test_closure_def test_ctx_def test_request_def test_context_def empty_request_def
  heap_of_def start_state_def blocked_state_def expired_state_def
  validateEmail_def validateEmail_rule_def detectBot_rule_def headers_has_def
  shield_def shield_rule_def mode_of_def isEmailType_def
  live_email_def email_rules_def dry_email_rules_def bot_rule_def eleven_rules_def
  bucket_rule_def fingerprint_events_def ticking_state_def after_remote_deny_def
  no_agent_request_def disposable_denied_def bucket_engine_def
  Priority_EmailValidation_def Priority_Shield_def Priority_RateLimit_def
  Priority_BotDetection_def Priority_SensitiveInfo_def Let_def

section \<open>Auxiliary facts\<close>

lemma inject_characteristics_Cons:
  "inject_characteristics cs as
     (if isRateLimitRule (h a) \<and> r_characteristics (h a) = None
      then h(a := (h a)\<lparr>r_characteristics := Some cs\<rparr>) else h) =
   inject_characteristics cs (a # as) h"
  by (rule ext) (auto simp: inject_characteristics_def isRateLimitRule_def)

lemma prepare_eq:
  "prepare cs rules rs s =
     (rs @ replicate (length rules) default_result,
      s\<lparr>heap := inject_characteristics cs rules (heap s)\<rparr>)"
proof (induction rules arbitrary: rs s)
  case Nil
  show ?case by (simp add: inject_characteristics_def)
next
  case (Cons a as)
  show ?case
    using inject_characteristics_Cons [of cs as "heap s" a]
    by (auto simp: Cons.IH Let_def)
qed



lemma protect_remote_decided:
  assumes "cl_decide cl cx details (map (heap s) rules) = Inr d"
  shows "fst (protect_remote cl rules cx details results s) = d
    \<and> Decide cx details (map (heap s) rules)
        \<in> set (trace (snd (protect_remote cl rules cx details results s)))"
  using assms
  by (auto simp: protect_remote_def Let_def emit_def cache_set_def nowInSeconds_def
      split: prod.splits)










lemma sensitiveInfo_loop_rules:
  "sensitiveInfo_loop az options opts acc = Inr rules \<Longrightarrow>
   rules = acc @ map (sensitiveInfo_rule az options) opts"
proof (induction opts arbitrary: acc)
  case Nil
  then show ?case by simp
next
  case (Cons opt opts)
  from Cons.prems have
    "sensitiveInfo_loop az options opts (acc @ [sensitiveInfo_rule az options opt]) = Inr rules"
    by (simp split: if_splits)
  from Cons.IH [OF this] show ?case by simp
qed

lemma entities_of_window:
  "entities_of (opt\<lparr>si_contextWindowSize := w\<rparr>) = entities_of opt"
  by (simp add: entities_of_def)

lemma convertedDetect_window:
  "convertedDetect (opt\<lparr>si_contextWindowSize := w\<rparr>) = convertedDetect opt"
  by (simp add: convertedDetect_def)

lemma sensitiveInfo_protect_ignores_own_window:
  "sensitiveInfo_protect az options (opt\<lparr>si_contextWindowSize := w\<rparr>) =
   sensitiveInfo_protect az options opt"
  by (rule ext, rule ext)
    (simp add: sensitiveInfo_protect_def entities_of_window convertedDetect_window
      split: sum.splits option.splits)

lemma sensitiveInfo_rule_ignores_own_window:
  "sensitiveInfo_rule az options (opt\<lparr>si_contextWindowSize := w\<rparr>) =
   sensitiveInfo_rule az options opt"
  by (simp add: sensitiveInfo_rule_def sensitiveInfo_protect_ignores_own_window)

lemma sensitiveInfo_loop_ignores_windows:
  "sensitiveInfo_loop az options
     (map (\<lambda>opt. opt\<lparr>si_contextWindowSize := w opt\<rparr>) opts) acc =
   sensitiveInfo_loop az options opts acc"
  by (induction opts arbitrary: acc) (simp_all add: sensitiveInfo_rule_ignores_own_window)























section \<open>The block cache\<close>

text \<open>
  C1 (as amended). \<open>ttl(k)\<close> returns the expiry of the entry for \<open>k\<close> minus the current
  time, which is negative once the entry has expired, and \<open>0\<close> when there is no entry;
  it removes nothing from the cache and changes no rule object.
\<close>

theorem cache_ttl_value:
  "fst (cache_ttl k s) =
     (case cache_expires s k of None \<Rightarrow> 0 | Some e \<Rightarrow> e - clock s (clock_reads s))
   \<and> cache_expires (snd (cache_ttl k s)) = cache_expires s
   \<and> cache_data (snd (cache_ttl k s)) = cache_data s
   \<and> heap (snd (cache_ttl k s)) = heap s"
  by (simp add: cache_ttl_def nowInSeconds_def emit_def Let_def split: option.split)

text \<open>
  C1 as the specification words it fails: for an entry that expired five seconds ago,
  \<open>ttl\<close> returns \<open>-5\<close>, where \<open>max(0, expiry - now)\<close> is \<open>0\<close>.
\<close>

theorem cache_ttl_negative:
  "fst (cache_ttl ''fp_1.2.3.4'' expired_state) = - 5
   \<and> fst (cache_ttl ''fp_1.2.3.4'' expired_state) \<noteq> max 0 (995 - 1000)"
  by (simp add: cache_ttl_def nowInSeconds_def emit_def expired_state_def start_state_def)

section \<open>The order of the rules given\<close>




section \<open>No rules\<close>

text \<open>
  C3 (as amended). With an empty rule list \<open>protect\<close> logs the deprecation warning and
  then asks the block cache for the fingerprint. When the cache holds no entry for it that
  is still live, \<open>protect\<close> calls \<open>client.decide\<close> and returns the decision it
  resolves to; when the cache holds a live block, \<open>protect\<close> returns the cached DENY
  and does not call \<open>client.decide\<close>.
\<close>

theorem protect_no_rules:
  assumes "cx = protect_context cl ctx (protect_details request)"
    and "f = c_fingerprint cx"
  shows "(\<exists>rest. trace (snd (protect cl [] ctx request s)) =
            trace s @ fingerprint_events cl f @
            [Log Warn no_rules_warning [], Time ''cache'', CacheGet f] @ rest)
    \<and> ((\<forall>e. cache_expires s f = Some e \<longrightarrow> e \<le> clock s (clock_reads s)) \<longrightarrow>
        (\<forall>d. cl_decide cl cx (protect_details request) [] = Inr d \<longrightarrow>
           fst (protect cl [] ctx request s) = d
           \<and> Decide cx (protect_details request) []
               \<in> set (trace (snd (protect cl [] ctx request s)))))
    \<and> (\<forall>e r. cache_expires s f = Some e \<and> cache_data s f = Some r
           \<and> clock s (clock_reads s) < e \<longrightarrow>
         fst (protect cl [] ctx request s) =
           \<lparr>d_conclusion = DENY, d_ttl = e - clock s (Suc (clock_reads s)), d_reason = r,
            d_results = []\<rparr>
         \<and> filter is_decide (trace (snd (protect cl [] ctx request s))) =
             filter is_decide (trace s))"
proof (intro conjI allI impI)
  show "\<exists>rest. trace (snd (protect cl [] ctx request s)) =
            trace s @ fingerprint_events cl f @
            [Log Warn no_rules_warning [], Time ''cache'', CacheGet f] @ rest"
    using assms
    by (auto simp: protect_def protect_local_def protect_remote_def Let_def cache_get_def
        cache_ttl_def cache_set_def nowInSeconds_def emit_def fingerprint_events_def
        split: option.splits sum.splits prod.splits)
next
  fix d
  assume miss: "\<forall>e. cache_expires s f = Some e \<longrightarrow> e \<le> clock s (clock_reads s)"
    and dec: "cl_decide cl cx (protect_details request) [] = Inr d"
  have "\<exists>s1. protect_local cl [] ctx request s =
      Inr (cx, protect_details request, [], s1)"
    using assms miss
    by (auto simp: protect_local_def Let_def cache_get_def cache_ttl_def nowInSeconds_def
        emit_def split: option.splits)
  then obtain s1 where s1: "protect_local cl [] ctx request s =
      Inr (cx, protect_details request, [], s1)" ..
  have remote: "protect cl [] ctx request s =
      protect_remote cl [] cx (protect_details request) [] s1"
    by (simp add: protect_def s1)
  show "fst (protect cl [] ctx request s) = d"
    using protect_remote_decided [of cl cx "protect_details request" s1 "[]" d "[]"] dec
    by (simp add: remote)
  show "Decide cx (protect_details request) []
      \<in> set (trace (snd (protect cl [] ctx request s)))"
    using protect_remote_decided [of cl cx "protect_details request" s1 "[]" d "[]"] dec
    by (simp add: remote)
next
  fix e r
  assume hit: "cache_expires s f = Some e \<and> cache_data s f = Some r
      \<and> clock s (clock_reads s) < e"
  show "fst (protect cl [] ctx request s) =
      \<lparr>d_conclusion = DENY, d_ttl = e - clock s (Suc (clock_reads s)), d_reason = r,
       d_results = []\<rparr>"
    using assms hit
    by (auto simp: protect_def protect_local_def Let_def cache_get_def cache_ttl_def
        nowInSeconds_def emit_def ArcjetDenyDecision_def)
  show "filter is_decide (trace (snd (protect cl [] ctx request s))) =
      filter is_decide (trace s)"
    using assms hit
    by (auto simp: protect_def protect_local_def Let_def cache_get_def cache_ttl_def
        nowInSeconds_def emit_def ArcjetDenyDecision_def)
qed

theorem protect_no_rules_witness:
  "fst (protect (test_closure allow_client) [] test_ctx (Some test_request) (start_state [])) =
     \<lparr>d_conclusion = ALLOW, d_ttl = 0, d_reason = GenericReason, d_results = []\<rparr>
   \<and> fst (protect (test_closure allow_client) [] test_ctx (Some test_request)
       (blocked_state [])) =
     \<lparr>d_conclusion = DENY, d_ttl = 60, d_reason = BotReason [] [''CURL''], d_results = []\<rparr>"
  using protect_no_rules [where cl = "test_closure allow_client" and ctx = test_ctx
      and request = "Some test_request" and s = "start_state []", OF refl refl]
    protect_no_rules [where cl = "test_closure allow_client" and ctx = test_ctx
      and request = "Some test_request" and s = "blocked_state []", OF refl refl]
  by (simp add: protect_context_def test_closure_def allow_client_def
      stub_fingerprint_def protect_details_def request_details_def test_request_def
      empty_request_def toAnalyzeRequest_def start_state_def blocked_state_def Let_def)

text \<open>
  C3 as the specification words it fails: an engine without rules whose remote decision
  was a DENY with a \<open>ttl\<close> answers the next request of the same client from the cache.
  It calls \<open>get\<close> and \<open>ttl\<close>, does not call \<open>client.decide\<close>, and returns a decision
  that differs from the one \<open>client.decide\<close> would give.
\<close>

theorem protect_no_rules_cached:
  "fst (protect (test_closure deny_client) [] test_ctx (Some test_request) after_remote_deny) =
     \<lparr>d_conclusion = DENY, d_ttl = 40, d_reason = RemoteReason ''shield'', d_results = []\<rparr>
   \<and> deny_client (test_context deny_client test_request) (protect_details (Some test_request))
       [] =
     Inr \<lparr>d_conclusion = DENY, d_ttl = 60, d_reason = RemoteReason ''shield'', d_results = []\<rparr>
   \<and> trace (snd (protect (test_closure deny_client) [] test_ctx (Some test_request)
       after_remote_deny)) =
     [Time ''local'', Time ''fingerprint'',
      Log Debug ''fingerprint (%s): %s'' [''node'', ''fp_1.2.3.4''],
      TimeEnd ''fingerprint'', Log Warn no_rules_warning [],
      Time ''cache'', CacheGet ''fp_1.2.3.4'', CacheTtl ''fp_1.2.3.4'' 50, TimeEnd ''cache'',
      TimeEnd ''local'', Log Debug ''decide: alreadyBlocked'' [], CacheTtl ''fp_1.2.3.4'' 40,
      Report (test_context deny_client test_request) (protect_details (Some test_request))
        \<lparr>d_conclusion = DENY, d_ttl = 40, d_reason = RemoteReason ''shield'',
         d_results = []\<rparr> [],
      Log Debug ''decide: already blocked'' []]"
  by (simp add: eval_defs)

section \<open>A denying rule in dry-run mode\<close>



section \<open>Too many rules\<close>

text \<open>
  C5. With more than ten rules \<open>protect\<close> returns the ERROR decision with the reason
  \<open>Only 10 rules may be specified\<close> and no results. All it does besides computing the
  fingerprint is to log the failure and to call \<open>client.report\<close> with that decision and
  an empty rule list: no rule is validated or run, and the cache is not touched.
\<close>

theorem protect_too_many_rules:
  assumes "length rules > 10"
  shows "protect cl rules ctx request s =
     (\<lparr>d_conclusion = ERROR, d_ttl = 0,
       d_reason = ErrorReason (ErrString ''Only 10 rules may be specified''),
       d_results = []\<rparr>,
      s\<lparr>trace := trace s @
        fingerprint_events cl
          (c_fingerprint (protect_context cl ctx (protect_details request))) @
        [Log Error ''Failure running rules. Only 10 rules may be specified.'' [],
         Report (protect_context cl ctx (protect_details request)) (protect_details request)
           \<lparr>d_conclusion = ERROR, d_ttl = 0,
            d_reason = ErrorReason (ErrString ''Only 10 rules may be specified''),
            d_results = []\<rparr> []]\<rparr>)
    \<and> filter is_rule_call (trace (snd (protect cl rules ctx request s))) =
        filter is_rule_call (trace s)"
proof -
  have run: "protect cl rules ctx request s =
     (\<lparr>d_conclusion = ERROR, d_ttl = 0,
       d_reason = ErrorReason (ErrString ''Only 10 rules may be specified''),
       d_results = []\<rparr>,
      s\<lparr>trace := trace s @
        fingerprint_events cl
          (c_fingerprint (protect_context cl ctx (protect_details request))) @
        [Log Error ''Failure running rules. Only 10 rules may be specified.'' [],
         Report (protect_context cl ctx (protect_details request)) (protect_details request)
           \<lparr>d_conclusion = ERROR, d_ttl = 0,
            d_reason = ErrorReason (ErrString ''Only 10 rules may be specified''),
            d_results = []\<rparr> []]\<rparr>)"
    using assms
    by (auto simp add: protect_def protect_local_def Let_def emit_def ArcjetErrorDecision_def
        fingerprint_events_def)
  show ?thesis
    unfolding run by (simp add: fingerprint_events_def)
qed

theorem protect_too_many_rules_witness:
  "length [0, 1, 2, 3, 4, 5, 6, 7, 8, 9, 10 :: nat] > 10
   \<and> fst (protect (test_closure allow_client) [0, 1, 2, 3, 4, 5, 6, 7, 8, 9, 10] test_ctx
        (Some test_request) (start_state eleven_rules)) =
      \<lparr>d_conclusion = ERROR, d_ttl = 0,
       d_reason = ErrorReason (ErrString ''Only 10 rules may be specified''),
       d_results = []\<rparr>
   \<and> trace (snd (protect (test_closure allow_client) [0, 1, 2, 3, 4, 5, 6, 7, 8, 9, 10]
        test_ctx (Some test_request) (start_state eleven_rules))) =
      [Time ''local'', Time ''fingerprint'',
       Log Debug ''fingerprint (%s): %s'' [''node'', ''fp_1.2.3.4''],
       TimeEnd ''fingerprint'',
       Log Error ''Failure running rules. Only 10 rules may be specified.'' [],
       Report (test_context allow_client test_request) (protect_details (Some test_request))
         \<lparr>d_conclusion = ERROR, d_ttl = 0,
          d_reason = ErrorReason (ErrString ''Only 10 rules may be specified''),
          d_results = []\<rparr> []]"
  using protect_too_many_rules [of "[0, 1, 2, 3, 4, 5, 6, 7, 8, 9, 10]"
      "test_closure allow_client" test_ctx "Some test_request" "start_state eleven_rules"]
  by (simp add: fingerprint_events_def test_context_def protect_context_def test_closure_def
      stub_fingerprint_def protect_details_def request_details_def test_request_def
      empty_request_def toAnalyzeRequest_def start_state_def Let_def)

section \<open>A cached block\<close>

text \<open>
  C6. When the rule list has between one and ten rules and the cache holds, for the
  fingerprint of the request, a reason whose expiry lies after the time that \<open>get\<close>
  reads, \<open>protect\<close> returns a DENY decision with the cached reason, with the value that the
  call of \<open>ttl\<close> returns as its \<open>ttl\<close>, and with one result per rule, each in state
  \<open>NOT_RUN\<close>. It calls \<open>client.report\<close> with that decision; it calls no rule's
  \<open>validate\<close> or \<open>protect\<close>, and not \<open>client.decide\<close>.
\<close>

theorem protect_cached_block:
  assumes "1 \<le> length rules" and "length rules \<le> 10"
    and "cx = protect_context cl ctx (protect_details request)"
    and "f = c_fingerprint cx"
    and "cache_expires s f = Some e" and "cache_data s f = Some r"
    and "clock s (clock_reads s) < e"
    and "ttl = e - clock s (Suc (clock_reads s))"
    and "decision = \<lparr>d_conclusion = DENY, d_ttl = ttl, d_reason = r,
           d_results = replicate (length rules) default_result\<rparr>"
    and "h' = inject_characteristics (c_characteristics cx) rules (heap s)"
  shows "protect cl rules ctx request s =
     (decision,
      s\<lparr>heap := h', clock_reads := Suc (Suc (clock_reads s)),
        trace := trace s @ fingerprint_events cl f @
          [Time ''cache'', CacheGet f, CacheTtl f (e - clock s (clock_reads s)),
           TimeEnd ''cache'', TimeEnd ''local'', Log Debug ''decide: alreadyBlocked'' [],
           CacheTtl f ttl,
           Report cx (protect_details request) decision (map h' rules),
           Log Debug ''decide: already blocked'' []]\<rparr>)
    \<and> (\<forall>res \<in> set (d_results decision). rr_state res = NOT_RUN)
    \<and> filter is_rule_call (trace (snd (protect cl rules ctx request s))) =
        filter is_rule_call (trace s)
    \<and> filter is_decide (trace (snd (protect cl rules ctx request s))) =
        filter is_decide (trace s)"
proof -
  have run: "protect cl rules ctx request s =
     (decision,
      s\<lparr>heap := h', clock_reads := Suc (Suc (clock_reads s)),
        trace := trace s @ fingerprint_events cl f @
          [Time ''cache'', CacheGet f, CacheTtl f (e - clock s (clock_reads s)),
           TimeEnd ''cache'', TimeEnd ''local'', Log Debug ''decide: alreadyBlocked'' [],
           CacheTtl f ttl,
           Report cx (protect_details request) decision (map h' rules),
           Log Debug ''decide: already blocked'' []]\<rparr>)"
    using assms
    by (auto simp add: protect_def protect_local_def Let_def prepare_eq cache_get_def
        cache_ttl_def nowInSeconds_def emit_def ArcjetDenyDecision_def fingerprint_events_def)
  show ?thesis
    unfolding run using assms(9) by (simp add: fingerprint_events_def default_result_def)
qed

theorem protect_cached_block_witness:
  "fst (protect (test_closure allow_client) [0] test_ctx (Some test_request)
        (blocked_state [bot_rule])) =
      \<lparr>d_conclusion = DENY, d_ttl = 60, d_reason = BotReason [] [''CURL''],
       d_results = [default_result]\<rparr>
   \<and> trace (snd (protect (test_closure allow_client) [0] test_ctx (Some test_request)
        (blocked_state [bot_rule]))) =
      [Time ''local'', Time ''fingerprint'',
       Log Debug ''fingerprint (%s): %s'' [''node'', ''fp_1.2.3.4''],
       TimeEnd ''fingerprint'', Time ''cache'', CacheGet ''fp_1.2.3.4'',
       CacheTtl ''fp_1.2.3.4'' 60, TimeEnd ''cache'', TimeEnd ''local'',
       Log Debug ''decide: alreadyBlocked'' [], CacheTtl ''fp_1.2.3.4'' 60,
       Report (test_context allow_client test_request) (protect_details (Some test_request))
         \<lparr>d_conclusion = DENY, d_ttl = 60, d_reason = BotReason [] [''CURL''],
          d_results = [default_result]\<rparr> [bot_rule],
       Log Debug ''decide: already blocked'' []]"
  using protect_cached_block [where rules = "[0]" and cl = "test_closure allow_client"
      and ctx = test_ctx and request = "Some test_request" and s = "blocked_state [bot_rule]"
      and e = 1060 and r = "BotReason [] [''CURL'']", OF _ _ refl refl _ _ _ refl refl refl]
  by (simp add: fingerprint_events_def test_context_def protect_context_def test_closure_def
      stub_fingerprint_def protect_details_def request_details_def test_request_def
      empty_request_def toAnalyzeRequest_def start_state_def blocked_state_def heap_of_def
      inject_characteristics_def isRateLimitRule_def bot_rule_def detectBot_rule_def
      Let_def)

section \<open>A failing remote decision\<close>




section \<open>Engines derived with withRule\<close>





section \<open>A local rule that throws\<close>



section \<open>The context window of sensitive-info rules\<close>

text \<open>
  C10. When \<open>sensitiveInfo\<close> is called with two or more option objects, the \<open>protect\<close>
  method of every rule it returns hands the analyzer the \<open>contextWindowSize\<close> of the
  first option object, or \<open>1\<close> when that is absent or \<open>0\<close>, together with the
  entities and the detector of the rule's own option object. The context windows of the other option
  objects have no effect: replacing them by any values gives the same rules.
\<close>

theorem sensitiveInfo_context_window:
  assumes "sensitiveInfo az options (opt # additional) = Inr rules"
    and "i < length rules"
    and "c_getBody cx = Inr (Some body)"
    and "own = (options # opt # additional) ! i"
  shows "length rules = Suc (Suc (length additional))
    \<and> r_protect (rules ! i) = Some (sensitiveInfo_protect az options own)
    \<and> the (r_protect (rules ! i)) cx details =
        (case az_detectSensitiveInfo az cx body (entities_of own)
                (case si_contextWindowSize options of
                   None \<Rightarrow> 1
                 | Some n \<Rightarrow> if n = 0 then 1 else n)
                (convertedDetect own) of
           Inl err \<Rightarrow> Inl err
         | Inr result \<Rightarrow> Inr (sensitiveInfo_result result))
    \<and> (\<forall>w. sensitiveInfo az options
               (map (\<lambda>x. x\<lparr>si_contextWindowSize := w x\<rparr>) (opt # additional)) = Inr rules)"
proof -
  have rules: "rules = map (sensitiveInfo_rule az options) (options # opt # additional)"
    using sensitiveInfo_loop_rules [of az options "options # opt # additional" "[]" rules]
      assms(1)
    by (simp add: sensitiveInfo_def)
  then have len: "length rules = Suc (Suc (length additional))" by simp
  have nth: "rules ! i = sensitiveInfo_rule az options own"
    using rules assms(2,4) by (simp del: list.map)
  have "sensitiveInfo az options
          (map (\<lambda>x. x\<lparr>si_contextWindowSize := w x\<rparr>) (opt # additional)) =
        sensitiveInfo az options (opt # additional)" for w
    by (simp add: sensitiveInfo_def sensitiveInfo_loop_ignores_windows del: list.map)
  then have ign: "sensitiveInfo az options
      (map (\<lambda>x. x\<lparr>si_contextWindowSize := w x\<rparr>) (opt # additional)) = Inr rules" for w
    using assms(1) by simp
  show ?thesis
    using len nth ign assms(3)
    by (simp add: sensitiveInfo_rule_def sensitiveInfo_protect_def or_one_def)
qed

theorem sensitiveInfo_context_window_witness:
  "sensitiveInfo stub_analyzer first_options [second_options] =
     Inr [sensitiveInfo_rule stub_analyzer first_options first_options,
          sensitiveInfo_rule stub_analyzer first_options second_options]
   \<and> the (r_protect (sensitiveInfo_rule stub_analyzer first_options second_options))
       (test_context allow_client test_request) (protect_details (Some test_request)) =
     Inr \<lparr>rr_ttl = 0, rr_state = RUN, rr_conclusion = DENY,
          rr_reason = SensitiveInfoReason
            [\<lparr>ie_start = 0, ie_end = 5, ie_identifiedType = ''EMAIL''\<rparr>] []\<rparr>
   \<and> the (r_protect (sensitiveInfo_rule stub_analyzer unsized_options second_options))
       (test_context allow_client test_request) (protect_details (Some test_request)) =
     Inr \<lparr>rr_ttl = 0, rr_state = RUN, rr_conclusion = DENY,
          rr_reason = SensitiveInfoReason
            [\<lparr>ie_start = 0, ie_end = 1, ie_identifiedType = ''EMAIL''\<rparr>] []\<rparr>
   \<and> the (r_protect (sensitiveInfo_rule stub_analyzer
          (unsized_options\<lparr>si_contextWindowSize := Some 0\<rparr>) second_options))
       (test_context allow_client test_request) (protect_details (Some test_request)) =
     Inr \<lparr>rr_ttl = 0, rr_state = RUN, rr_conclusion = DENY,
          rr_reason = SensitiveInfoReason
            [\<lparr>ie_start = 0, ie_end = 1, ie_identifiedType = ''EMAIL''\<rparr>] []\<rparr>"
proof -
  have body: "c_getBody (test_context allow_client test_request) =
     Inr (Some ''my email is joe@mailinator.example'')"
    by (simp add: test_context_def protect_context_def test_ctx_def Let_def)
  have built: "sensitiveInfo stub_analyzer fo [second_options] =
     Inr [sensitiveInfo_rule stub_analyzer fo fo,
          sensitiveInfo_rule stub_analyzer fo second_options]"
    if "si_allow fo = None" for fo
    using that by (simp add: sensitiveInfo_def second_options_def)
  have len: "1 < length [sensitiveInfo_rule stub_analyzer fo fo,
      sensitiveInfo_rule stub_analyzer fo second_options]" for fo
    by simp
  have call: "the (r_protect (sensitiveInfo_rule stub_analyzer fo second_options))
       (test_context allow_client test_request) (protect_details (Some test_request)) =
     (case az_detectSensitiveInfo stub_analyzer (test_context allow_client test_request)
             ''my email is joe@mailinator.example'' (entities_of second_options)
             (case si_contextWindowSize fo of
                None \<Rightarrow> 1 | Some n \<Rightarrow> if n = 0 then 1 else n)
             (convertedDetect second_options) of
        Inl err \<Rightarrow> Inl err
      | Inr result \<Rightarrow> Inr (sensitiveInfo_result result))"
    if "si_allow fo = None" for fo
    using sensitiveInfo_context_window [OF built [OF that] len body refl,
        of "protect_details (Some test_request)",
        THEN conjunct2, THEN conjunct2, THEN conjunct1]
    by simp
  show ?thesis
    using built [of first_options] call [of first_options] call [of unsized_options]
      call [of "unsized_options\<lparr>si_contextWindowSize := Some 0\<rparr>"]
    by (simp add: stub_analyzer_def first_options_def unsized_options_def
        sensitiveInfo_result_def convertAnalyzeDetectedSensitiveInfoEntity_def)
qed

end
